theory Spec2Isabelle
  imports Main "HOL-Library.Product_Lexorder"
begin

section \<open>Data model\<close>

text \<open>
  The web client is \<^verbatim>\<open>src/nextjs-app/src/app/ChatAppComponent.js\<close> (the page module
  only loads it) together with \<^verbatim>\<open>src/nextjs-app/firebase.js\<close>. React state is a record,
  every handler is a function from the state to the new state and the list of calls it
  made on the outside world, in the order it made them. The outcome of an awaited call
  of the SDK (fulfilled, or rejected with an error) is an argument of the handler.
\<close>

text \<open>A JavaScript \<^verbatim>\<open>Error\<close> object; only its \<^verbatim>\<open>message\<close> is ever read.\<close>

datatype js_error = Error (message: string)

text \<open>
  The identity the provider hands over (\<^verbatim>\<open>User\<close> of the auth SDK). Its \<^verbatim>\<open>uid\<close> is a
  string; \<^verbatim>\<open>photoURL\<close>, \<^verbatim>\<open>displayName\<close> and \<^verbatim>\<open>email\<close> are a string or \<^verbatim>\<open>null\<close>.
\<close>

record firebase_user =
  uid :: string
  photoURL :: "string option"
  displayName :: "string option"
  email :: "string option"

text \<open>
  \<^verbatim>\<open>serverTimestamp()\<close>: the sentinel written in place of a time, which asks the store to
  fill in its own clock.
\<close>

datatype field_value = serverTimestamp

text \<open>
  A document of the collection \<^verbatim>\<open>messages\<close>. In the payload of \<^verbatim>\<open>addDoc\<close> the field
  \<^verbatim>\<open>createdAt\<close> is the sentinel (\<open>field_value message\<close>); in a snapshot it is a time, or
  \<^verbatim>\<open>null\<close> while the server has not assigned one (\<open>nat option message\<close>, the time in
  milliseconds).
\<close>

record 'c message =
  msg_text :: string
  createdAt :: 'c
  uid :: string
  photoURL :: "string option"
  userName :: string

text \<open>The state of \<^verbatim>\<open>ChatAppComponent\<close>: its three \<^verbatim>\<open>useState\<close> cells.\<close>

record component =
  user :: "firebase_user option"
  loadingAuth :: bool
  formValue :: string

text \<open>The calls a handler makes on the outside world.\<close>

datatype effect =
    preventDefault
  | addDoc "field_value message"
  | console_error string js_error
  | alert string
  | signInWithPopup
  | router_push string
  | signOut

section \<open>Strings\<close>

text \<open>
  \<^verbatim>\<open>String.prototype.trim\<close> removes white space and line terminators from both ends.
  A \<open>char\<close> stands for a code unit below 256; among those the white space and line
  terminators of ECMAScript are TAB, LF, VT, FF, CR, SP and NBSP.
\<close>

definition isWhiteSpace :: "char \<Rightarrow> bool" where
  "isWhiteSpace ch \<longleftrightarrow> (of_char ch :: nat) \<in> {9, 10, 11, 12, 13, 32, 160}"

definition trim :: "string \<Rightarrow> string" where
  "trim s = rev (dropWhile isWhiteSpace (rev (dropWhile isWhiteSpace s)))"

text \<open>
  \<^verbatim>\<open>a || b\<close> on a string or \<^verbatim>\<open>null\<close>: \<^verbatim>\<open>null\<close> and the empty string are falsy.
\<close>

definition or_else :: "string option \<Rightarrow> string \<Rightarrow> string" where
  "or_else a b = (case a of None \<Rightarrow> b | Some s \<Rightarrow> if s = [] then b else s)"

section \<open>Composer\<close>

text \<open>
  \<^verbatim>\<open>sendMessage\<close> (ChatAppComponent.js, lines 223 to 243). The first argument is what the
  store answers to \<^verbatim>\<open>addDoc\<close>: \<open>None\<close> when the promise is fulfilled, \<open>Some e\<close> when it
  is rejected with \<open>e\<close>.
\<close>

definition sendMessage ::
  "(field_value message \<Rightarrow> js_error option) \<Rightarrow> component \<Rightarrow> component \<times> effect list" where
  "sendMessage store c =
     (if trim (formValue c) = [] \<or> user c = None then (c, [preventDefault])
      else case user c of
        None \<Rightarrow> (c, [preventDefault])
      | Some u \<Rightarrow>
          let doc = \<lparr>msg_text = formValue c,
                     createdAt = serverTimestamp,
                     uid = firebase_user.uid u,
                     photoURL = firebase_user.photoURL u,
                     userName = or_else (displayName u) ''Anonymous''\<rparr>
          in (case store doc of
                None \<Rightarrow> (c\<lparr>formValue := ''''\<rparr>, [preventDefault, addDoc doc])
              | Some e \<Rightarrow>
                  (c, [preventDefault, addDoc doc,
                       console_error ''Error sending message:'' e])))"

text \<open>The documents a trace of calls hands to \<^verbatim>\<open>addDoc\<close>.\<close>

fun appended :: "effect list \<Rightarrow> field_value message list" where
  "appended [] = []"
| "appended (addDoc d # es) = d # appended es"
| "appended (_ # es) = appended es"

text \<open>Two stores: one that acknowledges every append, one that rejects every append.\<close>

definition acknowledge :: "field_value message \<Rightarrow> js_error option" where
  "acknowledge doc = None"

definition reject :: "js_error \<Rightarrow> field_value message \<Rightarrow> js_error option" where
  "reject e doc = Some e"

section \<open>Session controller\<close>

text \<open>
  The component starts with no user, \<^verbatim>\<open>loadingAuth\<close> set and an empty draft
  (ChatAppComponent.js, lines 216 to 218).
\<close>

definition initial :: component where
  "initial = \<lparr>user = None, loadingAuth = True, formValue = ''''\<rparr>"

text \<open>
  The callback registered with \<^verbatim>\<open>onAuthStateChanged\<close> (lines 246 to 249): the provider
  calls it with the signed-in user, or with \<^verbatim>\<open>null\<close>.
\<close>

definition onAuthStateChanged :: "firebase_user option \<Rightarrow> component \<Rightarrow> component" where
  "onAuthStateChanged currentUser c = c\<lparr>user := currentUser, loadingAuth := False\<rparr>"

text \<open>
  \<^verbatim>\<open>handleGoogleLogin\<close> (lines 256 to 267). The argument is the outcome of
  \<^verbatim>\<open>signInWithPopup\<close>; closing the popup rejects the promise like any other failure.
  \<^verbatim>\<open>loadingAuth\<close> is set before the call and cleared in the \<^verbatim>\<open>finally\<close> block. The user
  itself is only ever stored by \<open>onAuthStateChanged\<close>.
\<close>

definition handleGoogleLogin :: "js_error option \<Rightarrow> component \<Rightarrow> component \<times> effect list" where
  "handleGoogleLogin outcome c =
     (let c1 = c\<lparr>loadingAuth := True\<rparr> in
      case outcome of
        None \<Rightarrow>
          (c1\<lparr>loadingAuth := False\<rparr>,
           [signInWithPopup, router_push ''https://necxis-assignment-one.vercel.app/''])
      | Some e \<Rightarrow>
          (c1\<lparr>loadingAuth := False\<rparr>,
           [signInWithPopup,
            console_error ''Error signing in with Google:'' e,
            alert ''Failed to sign in with Google. Please try again.'']))"

text \<open>
  \<^verbatim>\<open>handleSignOut\<close> (lines 269 to 275). The argument is the outcome of \<^verbatim>\<open>signOut\<close>.
  The handler writes to no state cell.
\<close>

definition handleSignOut :: "js_error option \<Rightarrow> component \<Rightarrow> component \<times> effect list" where
  "handleSignOut outcome c =
     (case outcome of
        None \<Rightarrow> (c, [signOut])
      | Some e \<Rightarrow> (c, [signOut, console_error ''Error signing out:'' e]))"

text \<open>
  The session the view observes, read off the ternary of the render function
  (\<^verbatim>\<open>loadingAuth ? ... : user ? ... : ...\<close>, line 302 and line 309).
\<close>

datatype session = Loading | Anonymous | Authenticated firebase_user

definition sessionState :: "component \<Rightarrow> session" where
  "sessionState c =
     (if loadingAuth c then Loading
      else case user c of None \<Rightarrow> Anonymous | Some u \<Rightarrow> Authenticated u)"

text \<open>
  Everything that writes to the state: the auth-state listener, the two click handlers,
  the submit handler, and the \<^verbatim>\<open>onChange\<close> of the text field, which stores the typed
  value with \<^verbatim>\<open>setFormValue\<close> (line 186). An event carries the outcome of the call the
  handler awaits.
\<close>

datatype event =
    AuthStateChanged "firebase_user option"
  | GoogleLogin "js_error option"
  | SignOutClick "js_error option"
  | Submit "field_value message \<Rightarrow> js_error option"
  | Change string

fun step :: "event \<Rightarrow> component \<Rightarrow> component" where
  "step (AuthStateChanged currentUser) c = onAuthStateChanged currentUser c"
| "step (GoogleLogin outcome) c = fst (handleGoogleLogin outcome c)"
| "step (SignOutClick outcome) c = fst (handleSignOut outcome c)"
| "step (Submit store) c = fst (sendMessage store c)"
| "step (Change v) c = c\<lparr>formValue := v\<rparr>"

section \<open>Render shell\<close>

text \<open>
  What a component returns: the elements of its tree that carry content. A child
  component appears as an element holding its props (\<open>MessagesList_el\<close>,
  \<open>MessageForm_el\<close>, \<open>ChatMessage_el\<close>); React renders it by calling the component.
\<close>

datatype element =
    CircularProgress
  | Typography string
  | Button string
  | Card "string option" string "string option"
  | MessagesList_el "firebase_user option"
  | MessageForm_el "firebase_user option" string
  | ChatMessage_el "nat option message" bool
  | messagesEndRef

text \<open>
  The body of \<^verbatim>\<open>ChatAppComponent\<close> below the title (lines 302 to 378). The card holds
  the photo of the avatar, \<^verbatim>\<open>user.displayName || 'User'\<close> and the e-mail address (the
  letter the avatar shows in place of a missing photo is left out).
\<close>

definition ChatAppComponent :: "component \<Rightarrow> element list" where
  "ChatAppComponent c =
     (if loadingAuth c then [CircularProgress, Typography ''Loading...'']
      else case user c of
        Some u \<Rightarrow>
          [Card (firebase_user.photoURL u) (or_else (displayName u) ''User'') (email u),
           Typography ''Messages'',
           Button ''Sign Out'',
           MessagesList_el (Some u),
           MessageForm_el (Some u) (formValue c)]
      | None \<Rightarrow>
          [Typography ''Please sign in to join the conversation'',
           Button ''Sign In with Google''])"

section \<open>Message feed\<close>

text \<open>
  The query of \<^verbatim>\<open>MessagesList\<close> (lines 103 to 108):
  \<^verbatim>\<open>query(messagesRef, orderBy('createdAt'), limit(50))\<close>. \<^verbatim>\<open>orderBy\<close> with no direction
  is ascending, and \<^verbatim>\<open>limit(n)\<close> keeps the first \<open>n\<close> documents of the ordered result
  (the SDK's \<^verbatim>\<open>limitToLast\<close> is the constraint that keeps the last \<open>n\<close>). A pending
  server time orders after every assigned time. The collection is the list of its
  documents; documents with the same \<^verbatim>\<open>createdAt\<close> keep the order of that list.
\<close>

definition createdAt_key :: "nat option message \<Rightarrow> nat \<times> nat" where
  "createdAt_key m = (case createdAt m of Some t \<Rightarrow> (0, t) | None \<Rightarrow> (1, 0))"

definition orderBy_createdAt :: "nat option message list \<Rightarrow> nat option message list" where
  "orderBy_createdAt docs = sort_key createdAt_key docs"

definition limit :: "nat \<Rightarrow> 'a list \<Rightarrow> 'a list" where
  "limit n docs = take n docs"

definition messagesQuery :: "nat option message list \<Rightarrow> nat option message list" where
  "messagesQuery docs = limit 50 (orderBy_createdAt docs)"

text \<open>
  The window the specification describes, in its own words: the most recent \<open>n\<close>
  messages (the last \<open>n\<close> by \<^verbatim>\<open>createdAt\<close>), in ascending order.
\<close>

definition most_recent :: "nat \<Rightarrow> nat option message list \<Rightarrow> nat option message list" where
  "most_recent n docs =
     (let ordered = orderBy_createdAt docs in drop (length ordered - n) ordered)"

text \<open>
  \<^verbatim>\<open>formatTime\<close> (lines 114 to 119). \<^verbatim>\<open>timestamp.toDate()\<close> on \<^verbatim>\<open>null\<close> throws a
  \<^verbatim>\<open>TypeError\<close>, so the method call is a function that fails on \<open>None\<close>. The first
  argument stands for \<^verbatim>\<open>toLocaleTimeString\<close> with the hour and minute options, which
  depends on the locale of the browser.
\<close>

definition toDate :: "nat option \<Rightarrow> js_error + nat" where
  "toDate timestamp =
     (case timestamp of None \<Rightarrow> Inl (Error ''TypeError'') | Some t \<Rightarrow> Inr t)"

definition formatTime :: "(nat \<Rightarrow> string) \<Rightarrow> nat option \<Rightarrow> js_error + string" where
  "formatTime toLocaleTimeString timestamp =
     (if timestamp = None then Inr ''''
      else case toDate timestamp of
        Inl e \<Rightarrow> Inl e
      | Inr date \<Rightarrow> Inr (toLocaleTimeString date))"

text \<open>
  \<^verbatim>\<open>ChatMessage\<close> (lines 54 to 96): the name of the author unless the message is the
  viewer's own, the text, and the time label.
\<close>

record bubble =
  author :: "string option"
  body :: string
  time_label :: string

definition ChatMessage ::
  "(nat \<Rightarrow> string) \<Rightarrow> nat option message \<Rightarrow> bool \<Rightarrow> js_error + bubble" where
  "ChatMessage toLocaleTimeString msg isCurrentUser =
     (case formatTime toLocaleTimeString (createdAt msg) of
        Inl e \<Rightarrow> Inl e
      | Inr t \<Rightarrow>
          Inr \<lparr>author = (if isCurrentUser then None
                          else Some (or_else (Some (userName msg)) ''Anonymous'')),
               body = msg_text msg,
               time_label = t\<rparr>)"

text \<open>
  The render of \<^verbatim>\<open>MessagesList\<close> (lines 128 to 173) on what \<^verbatim>\<open>useCollectionData\<close>
  returns: the messages (or \<^verbatim>\<open>undefined\<close>), the loading flag and the error (or
  \<^verbatim>\<open>undefined\<close>).
\<close>

datatype feed_state = FeedLoading | FeedError js_error | FeedReady "nat option message list"

type_synonym collection_data = "nat option message list option \<times> bool \<times> js_error option"

definition feedState :: "collection_data \<Rightarrow> feed_state" where
  "feedState h =
     (case h of (messages, loadingMessages, error) \<Rightarrow>
        if loadingMessages then FeedLoading
        else case error of
          Some e \<Rightarrow> FeedError e
        | None \<Rightarrow> FeedReady (case messages of None \<Rightarrow> [] | Some ms \<Rightarrow> ms))"

definition MessagesList :: "firebase_user option \<Rightarrow> collection_data \<Rightarrow> element list" where
  "MessagesList usr h =
     (case h of (messages, loadingMessages, error) \<Rightarrow>
        if loadingMessages then [CircularProgress, Typography ''Loading messages...'']
        else case error of
          Some e \<Rightarrow> [Typography (''Error loading messages: '' @ message e)]
        | None \<Rightarrow>
            (case messages of
               None \<Rightarrow> [Typography ''No messages yet. Be the first to say hello!'']
             | Some ms \<Rightarrow>
                 if length ms = 0
                 then [Typography ''No messages yet. Be the first to say hello!'']
                 else map (\<lambda>msg. ChatMessage_el msg
                             (case usr of None \<Rightarrow> False
                              | Some u \<Rightarrow> uid msg = firebase_user.uid u)) ms)
            @ [messagesEndRef])"

section \<open>Client initialisation\<close>

text \<open>
  \<^verbatim>\<open>firebase.js\<close>. The configuration object takes each field from the environment; a
  variable that is not set reads as \<^verbatim>\<open>undefined\<close>. \<^verbatim>\<open>measurementId\<close> is read from
  \<^verbatim>\<open>NEXT_PUBLIC_FIREBASE_VAPID_KEY\<close>, as the source has it.
\<close>

record firebase_options =
  apiKey :: "string option"
  authDomain :: "string option"
  projectId :: "string option"
  storageBucket :: "string option"
  messagingSenderId :: "string option"
  appId :: "string option"
  measurementId :: "string option"

definition firebaseConfig :: "(string \<rightharpoonup> string) \<Rightarrow> firebase_options" where
  "firebaseConfig env =
     \<lparr>apiKey = env ''NEXT_PUBLIC_FIREBASE_API_KEY'',
      authDomain = env ''NEXT_PUBLIC_FIREBASE_AUTH_DOMAIN'',
      projectId = env ''NEXT_PUBLIC_FIREBASE_PROJECT_ID'',
      storageBucket = env ''NEXT_PUBLIC_FIREBASE_STORAGE_BUCKET'',
      messagingSenderId = env ''NEXT_PUBLIC_FIREBASE_MESSAGING_SENDER_ID'',
      appId = env ''NEXT_PUBLIC_FIREBASE_APP_ID'',
      measurementId = env ''NEXT_PUBLIC_FIREBASE_VAPID_KEY''\<rparr>"

text \<open>
  The handles the SDK returns, and the SDK functions the module calls. They are not
  part of the repository, so they are parameters; each may throw.
\<close>

datatype firebase_app = FirebaseApp firebase_options

datatype auth_handle = Auth firebase_app

datatype firestore = Firestore firebase_app

record google_provider =
  customParameters :: "(string \<times> string) list"

record sdk =
  getApps :: "firebase_app list"
  getApp :: "js_error + firebase_app"
  initializeApp :: "firebase_options \<Rightarrow> js_error + firebase_app"
  getAuth :: "firebase_app \<Rightarrow> js_error + auth_handle"
  getFirestore :: "firebase_app \<Rightarrow> js_error + firestore"

record client =
  firebaseApp :: firebase_app
  auth :: auth_handle
  googleProvider :: google_provider
  db :: firestore

text \<open>
  The module body (lines 19 to 29): an exception of any call ends the evaluation of the
  module; the module itself has no \<^verbatim>\<open>throw\<close> and no test of the configuration.
\<close>

definition firebase_module :: "sdk \<Rightarrow> (string \<rightharpoonup> string) \<Rightarrow> js_error + client" where
  "firebase_module s env =
     (case (if length (getApps s) \<noteq> 0 then getApp s
            else initializeApp s (firebaseConfig env)) of
        Inl e \<Rightarrow> Inl e
      | Inr app \<Rightarrow>
          (case getAuth s app of
             Inl e \<Rightarrow> Inl e
           | Inr a \<Rightarrow>
               (case getFirestore s app of
                  Inl e \<Rightarrow> Inl e
                | Inr d \<Rightarrow>
                    Inr \<lparr>firebaseApp = app,
                         auth = a,
                         googleProvider =
                           \<lparr>customParameters = [(''prompt'', ''select_account'')]\<rparr>,
                         db = d\<rparr>)))"

section \<open>Example values\<close>

definition alice :: firebase_user where
  "alice = \<lparr>firebase_user.uid = ''u1'', photoURL = None, displayName = Some ''Alice'',
            email = None\<rparr>"

definition nameless :: firebase_user where
  "nameless = \<lparr>firebase_user.uid = ''u2'', photoURL = None, displayName = None,
               email = None\<rparr>"

definition chatting :: "firebase_user \<Rightarrow> string \<Rightarrow> component" where
  "chatting u draft = \<lparr>user = Some u, loadingAuth = False, formValue = draft\<rparr>"

definition signed_out :: "string \<Rightarrow> component" where
  "signed_out draft = \<lparr>user = None, loadingAuth = False, formValue = draft\<rparr>"

text \<open>A collection of 51 messages, sent at the times 1 to 51.\<close>

definition sent_at :: "nat \<Rightarrow> nat option message" where
  "sent_at t = \<lparr>msg_text = ''hello'', createdAt = Some t, uid = ''u1'', photoURL = None,
                userName = ''Alice''\<rparr>"

definition collection51 :: "nat option message list" where
  "collection51 = map sent_at [1..<52]"

text \<open>
  An SDK with no app yet, whose \<^verbatim>\<open>getAuth\<close> refuses a configuration without
  \<^verbatim>\<open>apiKey\<close>, whose \<^verbatim>\<open>getFirestore\<close> refuses one without \<^verbatim>\<open>projectId\<close>, and which
  accepts everything else.
\<close>

definition checking_sdk :: sdk where
  "checking_sdk =
     \<lparr>getApps = [],
      getApp = Inl (Error ''app/no-app''),
      initializeApp = (\<lambda>options. Inr (FirebaseApp options)),
      getAuth = (\<lambda>app. case app of FirebaseApp options \<Rightarrow>
                   if apiKey options = None then Inl (Error ''auth/invalid-api-key'')
                   else Inr (Auth app)),
      getFirestore = (\<lambda>app. case app of FirebaseApp options \<Rightarrow>
                   if projectId options = None then Inl (Error ''projectId not provided'')
                   else Inr (Firestore app))\<rparr>"

text \<open>The same SDK, but its \<^verbatim>\<open>initializeApp\<close> refuses every configuration.\<close>

definition refusing_sdk :: sdk where
  "refusing_sdk =
     checking_sdk\<lparr>initializeApp := (\<lambda>options. Inl (Error ''app/invalid-options''))\<rparr>"

text \<open>The same SDK, but with an app that exists already, configured with a key only.\<close>

definition running_app :: firebase_app where
  "running_app =
     FirebaseApp \<lparr>apiKey = Some ''key'', authDomain = None, projectId = Some ''chat'',
       storageBucket = None, messagingSenderId = None, appId = None, measurementId = None\<rparr>"

definition running_sdk :: sdk where
  "running_sdk = checking_sdk\<lparr>getApps := [running_app], getApp := Inr running_app\<rparr>"

text \<open>An environment with every variable but \<^verbatim>\<open>NEXT_PUBLIC_FIREBASE_APP_ID\<close>.\<close>

definition env_without_appId :: "string \<rightharpoonup> string" where
  "env_without_appId =
     map_of [(''NEXT_PUBLIC_FIREBASE_API_KEY'', ''key''),
             (''NEXT_PUBLIC_FIREBASE_AUTH_DOMAIN'', ''chat.example.com''),
             (''NEXT_PUBLIC_FIREBASE_PROJECT_ID'', ''chat''),
             (''NEXT_PUBLIC_FIREBASE_STORAGE_BUCKET'', ''chat.bucket''),
             (''NEXT_PUBLIC_FIREBASE_MESSAGING_SENDER_ID'', ''42''),
             (''NEXT_PUBLIC_FIREBASE_VAPID_KEY'', ''G-1'')]"

text \<open>An environment with \<^verbatim>\<open>NEXT_PUBLIC_FIREBASE_API_KEY\<close> only.\<close>

definition env_without_projectId :: "string \<rightharpoonup> string" where
  "env_without_projectId = map_of [(''NEXT_PUBLIC_FIREBASE_API_KEY'', ''key'')]"

section \<open>Properties of the composer\<close>

lemma trim_Nil_iff: "trim s = [] \<longleftrightarrow> (\<forall>ch \<in> set s. isWhiteSpace ch)"
proof
  assume "trim s = []"
  then have "\<forall>ch \<in> set (dropWhile isWhiteSpace s). isWhiteSpace ch"
    by (simp add: trim_def)
  then have "dropWhile isWhiteSpace s = []"
    using hd_dropWhile [of isWhiteSpace s] by (cases "dropWhile isWhiteSpace s") auto
  then show "\<forall>ch \<in> set s. isWhiteSpace ch"
    by simp
next
  assume "\<forall>ch \<in> set s. isWhiteSpace ch"
  then have d: "dropWhile isWhiteSpace s = []"
    by simp
  show "trim s = []"
    unfolding trim_def d by simp
qed

text \<open>
  Claim C2. \<^verbatim>\<open>sendMessage\<close> hands a document to \<^verbatim>\<open>addDoc\<close> only if the trimmed draft
  is not empty and a user is signed in. If the trimmed draft is empty (in particular
  if the draft is white space only) or no user is signed in, it returns with the state
  as it was and has called nothing but \<^verbatim>\<open>preventDefault\<close> on the form event.
\<close>

theorem sendMessage_guard:
  "(addDoc d \<in> set (snd (sendMessage store c)) \<longrightarrow>
      trim (formValue c) \<noteq> [] \<and> user c \<noteq> None)
   \<and> (trim (formValue c) = [] \<or> user c = None \<longrightarrow>
        sendMessage store c = (c, [preventDefault]))
   \<and> ((\<forall>ch \<in> set (formValue c). isWhiteSpace ch) \<longrightarrow>
        sendMessage store c = (c, [preventDefault]))"
  by (auto simp: sendMessage_def trim_Nil_iff Let_def split: option.splits)

theorem sendMessage_guard_witness:
  "addDoc \<lparr>msg_text = ''hello'', createdAt = serverTimestamp, uid = ''u1'', photoURL = None,
            userName = ''Alice''\<rparr>
     \<in> set (snd (sendMessage acknowledge (chatting alice ''hello'')))
   \<and> trim ''hello'' \<noteq> [] \<and> user (chatting alice ''hello'') \<noteq> None
   \<and> isWhiteSpace CHR '' '' \<and> trim ''  '' = []
   \<and> sendMessage acknowledge (chatting alice ''  '') = (chatting alice ''  '', [preventDefault])
   \<and> sendMessage acknowledge (signed_out ''hello'') = (signed_out ''hello'', [preventDefault])"
  using sendMessage_guard [of "\<lparr>msg_text = ''hello'', createdAt = serverTimestamp, uid = ''u1'',
            photoURL = None, userName = ''Alice''\<rparr>" acknowledge "chatting alice ''hello''"]
    sendMessage_guard [of undefined acknowledge "chatting alice ''  ''"]
    sendMessage_guard [of undefined acknowledge "signed_out ''hello''"]
  by (simp add: sendMessage_def trim_def isWhiteSpace_def or_else_def alice_def chatting_def
      signed_out_def acknowledge_def)

text \<open>
  Claim C3. A submit that passes the guard treats the draft atomically: when the store
  acknowledges the append, the draft becomes the empty string and nothing else of the
  state changes; when the store rejects it, the state is exactly as before and the
  error is logged with \<^verbatim>\<open>console.error\<close>, which is the only call after the append.
\<close>

theorem sendMessage_draft:
  assumes "trim (formValue c) \<noteq> []" and "user c = Some u"
  defines "doc \<equiv> \<lparr>msg_text = formValue c, createdAt = serverTimestamp,
                   uid = firebase_user.uid u, photoURL = firebase_user.photoURL u,
                   userName = or_else (displayName u) ''Anonymous''\<rparr>"
  shows "(store doc = None \<longrightarrow>
            sendMessage store c = (c\<lparr>formValue := ''''\<rparr>, [preventDefault, addDoc doc]))
       \<and> (store doc = Some e \<longrightarrow>
            sendMessage store c =
              (c, [preventDefault, addDoc doc, console_error ''Error sending message:'' e]))"
  using assms by (simp add: sendMessage_def)

theorem sendMessage_draft_witness:
  "sendMessage acknowledge (chatting alice ''hello'') =
     (chatting alice '''',
      [preventDefault,
       addDoc \<lparr>msg_text = ''hello'', createdAt = serverTimestamp, uid = ''u1'', photoURL = None,
               userName = ''Alice''\<rparr>])
   \<and> sendMessage (reject (Error ''offline'')) (chatting alice ''hello'') =
     (chatting alice ''hello'',
      [preventDefault,
       addDoc \<lparr>msg_text = ''hello'', createdAt = serverTimestamp, uid = ''u1'', photoURL = None,
               userName = ''Alice''\<rparr>,
       console_error ''Error sending message:'' (Error ''offline'')])"
  using sendMessage_draft [of "chatting alice ''hello''" alice acknowledge]
    sendMessage_draft [of "chatting alice ''hello''" alice "reject (Error ''offline'')"
      "Error ''offline''"]
  by (simp add: trim_def isWhiteSpace_def or_else_def alice_def chatting_def acknowledge_def
      reject_def)

text \<open>
  Claim C4, as stated, fails on the user name: the document carries
  \<^verbatim>\<open>displayName || 'Anonymous'\<close>. A signed-in user whose \<^verbatim>\<open>displayName\<close> is \<^verbatim>\<open>null\<close>
  submits ``hello'' and the one document appended has the user name ``Anonymous'',
  which is not the display name of that identity.
\<close>

theorem sendMessage_userName_counterexample:
  "appended (snd (sendMessage acknowledge (chatting nameless ''hello''))) =
     [\<lparr>msg_text = ''hello'', createdAt = serverTimestamp, uid = ''u2'', photoURL = None,
       userName = ''Anonymous''\<rparr>]
   \<and> displayName nameless = None
   \<and> Some ''Anonymous'' \<noteq> displayName nameless"
  by (simp add: sendMessage_def trim_def isWhiteSpace_def or_else_def nameless_def chatting_def
      acknowledge_def)

text \<open>
  Claim C4, amended. A submit that passes the guard appends exactly one document,
  whether the store acknowledges it or not. Its text is the draft verbatim, its
  \<^verbatim>\<open>createdAt\<close> is the server-time sentinel, its \<^verbatim>\<open>uid\<close> and \<^verbatim>\<open>photoURL\<close> (possibly
  \<^verbatim>\<open>null\<close>) are those of the current identity, and its \<^verbatim>\<open>userName\<close> is the display name
  of the identity when that is a non-empty string, and ``Anonymous'' when the display
  name is \<^verbatim>\<open>null\<close> or empty.
\<close>

theorem sendMessage_document:
  assumes "trim (formValue c) \<noteq> []" and "user c = Some u"
  shows "appended (snd (sendMessage store c)) =
     [\<lparr>msg_text = formValue c,
       createdAt = serverTimestamp,
       uid = firebase_user.uid u,
       photoURL = firebase_user.photoURL u,
       userName = (case displayName u of
                     None \<Rightarrow> ''Anonymous''
                   | Some n \<Rightarrow> if n = '''' then ''Anonymous'' else n)\<rparr>]"
  using assms by (simp add: sendMessage_def or_else_def Let_def split: option.splits)

theorem sendMessage_document_witness:
  "trim (formValue (chatting alice ''hello'')) \<noteq> []
   \<and> user (chatting alice ''hello'') = Some alice
   \<and> appended (snd (sendMessage acknowledge (chatting alice ''hello''))) =
     [\<lparr>msg_text = ''hello'', createdAt = serverTimestamp, uid = ''u1'', photoURL = None,
       userName = ''Alice''\<rparr>]"
  using sendMessage_document [of "chatting alice ''hello''" alice acknowledge]
  by (simp add: trim_def isWhiteSpace_def alice_def chatting_def acknowledge_def)

section \<open>Properties of the session controller\<close>

text \<open>
  Claim C5. The session the view observes is always exactly one of \<open>Loading\<close>,
  \<open>Anonymous\<close> and \<open>Authenticated u\<close>, and it selects the view: while \<open>Loading\<close> only
  the progress indicator is rendered; when \<open>Anonymous\<close> the sign-in prompt is rendered
  and no composer; the feed and the composer are rendered only when \<open>Authenticated\<close>,
  for the signed-in user.
\<close>

theorem view_selection:
  "(sessionState c = Loading \<or> sessionState c = Anonymous
      \<or> (\<exists>u. sessionState c = Authenticated u))
   \<and> (sessionState c = Loading \<longrightarrow>
        loadingAuth c \<and> ChatAppComponent c = [CircularProgress, Typography ''Loading...''])
   \<and> (sessionState c = Anonymous \<longrightarrow>
        \<not> loadingAuth c \<and> user c = None
        \<and> ChatAppComponent c =
            [Typography ''Please sign in to join the conversation'',
             Button ''Sign In with Google''])
   \<and> (sessionState c = Authenticated u \<longrightarrow>
        \<not> loadingAuth c \<and> user c = Some u
        \<and> ChatAppComponent c =
            [Card (firebase_user.photoURL u) (or_else (displayName u) ''User'') (email u),
             Typography ''Messages'',
             Button ''Sign Out'',
             MessagesList_el (Some u),
             MessageForm_el (Some u) (formValue c)])
   \<and> (MessagesList_el v \<in> set (ChatAppComponent c) \<or>
        MessageForm_el v d \<in> set (ChatAppComponent c) \<longrightarrow>
        (\<exists>u. v = Some u \<and> sessionState c = Authenticated u))"
  by (auto simp: sessionState_def ChatAppComponent_def split: option.splits if_splits)

theorem view_selection_witness:
  "sessionState initial = Loading
   \<and> ChatAppComponent initial = [CircularProgress, Typography ''Loading...'']
   \<and> sessionState (onAuthStateChanged None initial) = Anonymous
   \<and> ChatAppComponent (onAuthStateChanged None initial) =
        [Typography ''Please sign in to join the conversation'', Button ''Sign In with Google'']
   \<and> sessionState (onAuthStateChanged (Some alice) initial) = Authenticated alice
   \<and> ChatAppComponent (onAuthStateChanged (Some alice) initial) =
        [Card None ''Alice'' None, Typography ''Messages'', Button ''Sign Out'',
         MessagesList_el (Some alice), MessageForm_el (Some alice) '''']
   \<and> MessagesList_el (Some alice)
        \<in> set (ChatAppComponent (onAuthStateChanged (Some alice) initial))"
  using view_selection [of initial]
    view_selection [of "onAuthStateChanged None initial"]
    view_selection [of "onAuthStateChanged (Some alice) initial" alice "Some alice"]
  by (simp add: sessionState_def ChatAppComponent_def initial_def onAuthStateChanged_def
      or_else_def alice_def)

text \<open>
  Claim C7, as stated, fails: \<^verbatim>\<open>handleSignOut\<close> writes to no state cell, so after a
  failed sign-out of a signed-in user the session is still \<open>Authenticated\<close>, not
  \<open>Anonymous\<close>.
\<close>

theorem handleSignOut_failure_counterexample:
  "sessionState (chatting alice '''') = Authenticated alice
   \<and> fst (handleSignOut (Some (Error ''network'')) (chatting alice '''')) = chatting alice ''''
   \<and> sessionState (fst (handleSignOut (Some (Error ''network'')) (chatting alice '''')))
       = Authenticated alice
   \<and> sessionState (fst (handleSignOut (Some (Error ''network'')) (chatting alice '''')))
       \<noteq> Anonymous"
  by (simp add: handleSignOut_def sessionState_def chatting_def)

text \<open>
  Of all that writes to the state, only the auth-state listener changes the user.
\<close>

lemma user_step: "user (step ev c) \<noteq> user c \<Longrightarrow> \<exists>v. ev = AuthStateChanged v"
  by (cases ev)
     (auto simp: handleGoogleLogin_def handleSignOut_def sendMessage_def Let_def
           split: option.splits if_splits)

text \<open>
  Claim C7, amended. When the sign-out call fails, the error is logged with
  \<^verbatim>\<open>console.error\<close> and the state is left exactly as it was: the session and the view
  are unchanged. A sign-out call that succeeds changes no state either. From an
  \<open>Authenticated\<close> session the view turns \<open>Anonymous\<close> only when the provider reports
  the sign-out to the auth-state listener with \<^verbatim>\<open>null\<close> (no other event changes the
  user), and on that report it does.
\<close>

theorem handleSignOut_failure:
  "handleSignOut (Some e) c = (c, [signOut, console_error ''Error signing out:'' e])
   \<and> sessionState (fst (handleSignOut (Some e) c)) = sessionState c
   \<and> ChatAppComponent (fst (handleSignOut (Some e) c)) = ChatAppComponent c
   \<and> handleSignOut None c = (c, [signOut])
   \<and> (sessionState c = Authenticated u \<and> sessionState (step ev c) = Anonymous \<longrightarrow>
        ev = AuthStateChanged None)
   \<and> (user (step ev c) \<noteq> user c \<longrightarrow> (\<exists>v. ev = AuthStateChanged v))
   \<and> sessionState (step (AuthStateChanged None) c) = Anonymous"
proof -
  have failed: "handleSignOut (Some e) c = (c, [signOut, console_error ''Error signing out:'' e])"
    by (simp add: handleSignOut_def)
  have succeeded: "handleSignOut None c = (c, [signOut])"
    by (simp add: handleSignOut_def)
  have only_listener: "ev = AuthStateChanged None"
    if "sessionState c = Authenticated u" and "sessionState (step ev c) = Anonymous"
  proof -
    from that(1) have "user c = Some u"
      by (auto simp: sessionState_def split: if_splits option.splits)
    moreover from that(2) have "user (step ev c) = None"
      by (auto simp: sessionState_def split: if_splits option.splits)
    ultimately have "user (step ev c) \<noteq> user c"
      by simp
    then obtain v where ev: "ev = AuthStateChanged v"
      using user_step by blast
    with \<open>user (step ev c) = None\<close> have "v = None"
      by (simp add: onAuthStateChanged_def)
    with ev show ?thesis
      by simp
  qed
  have reported: "sessionState (step (AuthStateChanged None) c) = Anonymous"
    by (simp add: sessionState_def onAuthStateChanged_def)
  from failed succeeded only_listener reported user_step [of ev c] show ?thesis
    by auto
qed

theorem handleSignOut_failure_witness:
  "handleSignOut (Some (Error ''network'')) (chatting alice '''') =
     (chatting alice '''', [signOut, console_error ''Error signing out:'' (Error ''network'')])
   \<and> handleSignOut None (chatting alice '''') = (chatting alice '''', [signOut])
   \<and> sessionState (chatting alice '''') = Authenticated alice
   \<and> sessionState (step (AuthStateChanged None) (chatting alice '''')) = Anonymous
   \<and> user (step (AuthStateChanged None) (chatting alice '''')) \<noteq> user (chatting alice '''')
   \<and> sessionState (step (SignOutClick (Some (Error ''network''))) (chatting alice ''''))
       = Authenticated alice
   \<and> sessionState (step (SignOutClick None) (chatting alice '''')) = Authenticated alice"
  using handleSignOut_failure [of "Error ''network''" "chatting alice ''''" alice
      "AuthStateChanged None"]
  by (simp add: handleSignOut_def sessionState_def onAuthStateChanged_def chatting_def)

text \<open>
  Claim C9. When the interactive sign-in is cancelled or fails for a viewer who is not
  signed in, the handler ends with the session \<open>Anonymous\<close> (\<^verbatim>\<open>loadingAuth\<close>, set
  for the time of the popup, is cleared again and no user is stored), the notice
  is shown with \<^verbatim>\<open>alert\<close>, and \<^verbatim>\<open>signInWithPopup\<close> has been called once only.
\<close>

theorem handleGoogleLogin_failure:
  assumes "user c = None"
  shows "sessionState (fst (handleGoogleLogin (Some e) c)) = Anonymous
   \<and> snd (handleGoogleLogin (Some e) c) =
       [signInWithPopup,
        console_error ''Error signing in with Google:'' e,
        alert ''Failed to sign in with Google. Please try again.'']
   \<and> fst (handleGoogleLogin (Some e) c) = c\<lparr>loadingAuth := False\<rparr>"
  using assms by (simp add: handleGoogleLogin_def sessionState_def)

theorem handleGoogleLogin_failure_witness:
  "user (signed_out '''') = None
   \<and> sessionState (fst (handleGoogleLogin (Some (Error ''auth/popup-closed-by-user''))
        (signed_out ''''))) = Anonymous
   \<and> handleGoogleLogin (Some (Error ''auth/popup-closed-by-user'')) (signed_out '''') =
       (signed_out '''',
        [signInWithPopup,
         console_error ''Error signing in with Google:'' (Error ''auth/popup-closed-by-user''),
         alert ''Failed to sign in with Google. Please try again.''])"
  using handleGoogleLogin_failure [of "signed_out ''''" "Error ''auth/popup-closed-by-user''"]
  by (simp add: handleGoogleLogin_def signed_out_def)

section \<open>Properties of the message feed\<close>

text \<open>
  The query never yields more than 50 documents, yields them in ascending order of
  \<^verbatim>\<open>createdAt\<close> (pending ones last), and yields documents of the collection only. Up to
  50 documents the window is the whole collection.
\<close>

lemma messagesQuery_length: "length (messagesQuery docs) \<le> 50"
  by (simp add: messagesQuery_def limit_def)

lemma messagesQuery_sorted: "sorted (map createdAt_key (messagesQuery docs))"
proof -
  have "sorted (take 50 (map createdAt_key (sort_key createdAt_key docs)))"
    by (rule sorted_wrt_take) simp
  then show ?thesis
    by (simp add: messagesQuery_def limit_def orderBy_createdAt_def take_map)
qed

lemma messagesQuery_set: "set (messagesQuery docs) \<subseteq> set docs"
  using set_take_subset [of 50 "sort_key createdAt_key docs"]
  by (simp add: messagesQuery_def limit_def orderBy_createdAt_def)

lemma messagesQuery_small: "length docs \<le> 50 \<Longrightarrow> messagesQuery docs = most_recent 50 docs"
  by (simp add: messagesQuery_def limit_def most_recent_def orderBy_createdAt_def)

lemma messagesQuery_omits_newest:
  assumes "50 < length docs" and "distinct (map createdAt_key docs)"
  shows "last (orderBy_createdAt docs) \<notin> set (messagesQuery docs)"
proof -
  let ?s = "orderBy_createdAt docs"
  have len: "50 < length ?s"
    using assms(1) by (simp add: orderBy_createdAt_def)
  have "distinct docs"
    using assms(2) by (simp add: distinct_map)
  then have "distinct ?s"
    by (simp add: orderBy_createdAt_def)
  then have "distinct (take 50 ?s @ drop 50 ?s)"
    by simp
  then have disj: "set (take 50 ?s) \<inter> set (drop 50 ?s) = {}"
    by (simp only: distinct_append)
  have "drop 50 ?s \<noteq> []"
    using len by simp
  then have "last ?s \<in> set (drop 50 ?s)"
    using last_drop [of 50 ?s] len last_in_set [of "drop 50 ?s"] by simp
  with disj show ?thesis
    by (auto simp: messagesQuery_def limit_def)
qed

lemma sorted_sent_at: "sorted (map createdAt_key (map sent_at [i..<j]))"
proof -
  have "sorted_wrt (\<lambda>x y. createdAt_key (sent_at x) \<le> createdAt_key (sent_at y)) [i..<j]"
    by (rule sorted_wrt_mono_rel [of _ "(\<le>)"])
       (simp_all add: createdAt_key_def sent_at_def)
  then show ?thesis
    by (simp add: sorted_map sorted_wrt_map)
qed

lemma orderBy_collection51: "orderBy_createdAt collection51 = collection51"
  unfolding orderBy_createdAt_def collection51_def
  by (rule sort_key_id_if_sorted) (rule sorted_sent_at)

text \<open>
  Claim C1 says that beyond 50 messages the window holds the newest 50. The query
  orders ascending and keeps the first 50, so it holds the oldest 50: on the collection
  of the 51 messages sent at the times 1 to 51 it yields the messages of the times 1 to
  50, where the most recent 50 are those of the times 2 to 51, and the newest message
  is not displayed.
\<close>

theorem messagesQuery_keeps_oldest:
  "length collection51 = 51
   \<and> messagesQuery collection51 = map sent_at [1..<51]
   \<and> most_recent 50 collection51 = map sent_at [2..<52]
   \<and> sent_at 51 \<notin> set (messagesQuery collection51)
   \<and> sent_at 51 \<in> set (most_recent 50 collection51)
   \<and> messagesQuery collection51 \<noteq> most_recent 50 collection51"
proof -
  have len: "length collection51 = 51"
    by (simp add: collection51_def)
  have q: "messagesQuery collection51 = map sent_at [1..<51]"
  proof -
    have "messagesQuery collection51 = take 50 collection51"
      by (simp add: messagesQuery_def limit_def orderBy_collection51)
    also have "\<dots> = map sent_at (take 50 [1..<52])"
      by (simp only: collection51_def take_map)
    also have "take 50 [1..<52] = [1..<51::nat]"
      by (simp del: upt_rec_numeral)
    finally show ?thesis .
  qed
  have r: "most_recent 50 collection51 = map sent_at [2..<52]"
  proof -
    have "most_recent 50 collection51 = drop 1 collection51"
      by (simp add: most_recent_def orderBy_collection51 len)
    also have "\<dots> = map sent_at (drop 1 [1..<52])"
      by (simp only: collection51_def drop_map)
    also have "drop 1 [1..<52] = [2..<52::nat]"
      by (simp add: numeral_2_eq_2 del: upt_rec_numeral)
    finally show ?thesis .
  qed
  have a: "sent_at 51 \<notin> set (map sent_at [1..<51])"
    by (auto simp: sent_at_def simp del: upt_rec_numeral)
  have b: "sent_at 51 \<in> set (map sent_at [2..<52])"
    by (simp del: upt_rec_numeral)
  from a b have "map sent_at [1..<51] \<noteq> map sent_at [2..<52]"
    by metis
  with len q r a b show ?thesis
    by (simp only: simp_thms)
qed

text \<open>
  Claim C6. The feed is in exactly one of three states, taken in the order of the
  render function, and the list renders accordingly: while loading, the progress
  indicator; on an error, the text ``Error loading messages:'' followed by the message of
  the error, and no progress indicator; when ready with no message, the empty-state
  text (followed by the invisible scroll anchor).
\<close>

theorem MessagesList_states:
  "(feedState h = FeedLoading \<or> (\<exists>e. feedState h = FeedError e)
      \<or> (\<exists>ms. feedState h = FeedReady ms))
   \<and> (feedState h = FeedLoading \<longrightarrow>
        MessagesList usr h = [CircularProgress, Typography ''Loading messages...''])
   \<and> (feedState h = FeedError e \<longrightarrow>
        MessagesList usr h = [Typography (''Error loading messages: '' @ message e)]
        \<and> CircularProgress \<notin> set (MessagesList usr h))
   \<and> (feedState h = FeedReady [] \<longrightarrow>
        MessagesList usr h =
          [Typography ''No messages yet. Be the first to say hello!'', messagesEndRef])"
  by (cases h) (auto simp: feedState_def MessagesList_def split: option.splits if_splits)

theorem MessagesList_states_witness:
  "feedState (None, True, None) = FeedLoading
   \<and> MessagesList (Some alice) (None, True, None) =
        [CircularProgress, Typography ''Loading messages...'']
   \<and> feedState (None, False, Some (Error ''permission denied'')) =
        FeedError (Error ''permission denied'')
   \<and> MessagesList (Some alice) (None, False, Some (Error ''permission denied'')) =
        [Typography ''Error loading messages: permission denied'']
   \<and> feedState (Some [], False, None) = FeedReady []
   \<and> MessagesList (Some alice) (Some [], False, None) =
        [Typography ''No messages yet. Be the first to say hello!'', messagesEndRef]"
  using MessagesList_states [where h = "(None, True, None)" and usr = "Some alice"]
    MessagesList_states [where h = "(None, False, Some (Error ''permission denied''))"
      and e = "Error ''permission denied''" and usr = "Some alice"]
    MessagesList_states [where h = "(Some [], False, None)" and usr = "Some alice"]
  by (simp add: feedState_def MessagesList_def)

text \<open>
  Claim C10. \<^verbatim>\<open>formatTime\<close> returns the empty string on \<^verbatim>\<open>null\<close> and does not reach
  \<^verbatim>\<open>toDate\<close>, which would throw there; on a time it returns the formatted time. So
  the bubble of a message whose \<^verbatim>\<open>createdAt\<close> is still \<^verbatim>\<open>null\<close> renders, with an empty
  time label.
\<close>

theorem formatTime_pending:
  "formatTime toLocaleTimeString None = Inr ''''
   \<and> formatTime toLocaleTimeString (Some t) = Inr (toLocaleTimeString t)
   \<and> toDate None = Inl (Error ''TypeError'')
   \<and> ChatMessage toLocaleTimeString (msg\<lparr>createdAt := None\<rparr>) isCurrentUser =
       Inr \<lparr>author = (if isCurrentUser then None
                       else Some (or_else (Some (userName msg)) ''Anonymous'')),
            body = msg_text msg, time_label = ''''\<rparr>"
  by (simp add: formatTime_def toDate_def ChatMessage_def)

section \<open>Properties of the client initialisation\<close>

text \<open>
  Claim C8, as stated, fails: the module has no check of its own. With every variable
  set but \<^verbatim>\<open>NEXT_PUBLIC_FIREBASE_APP_ID\<close>, and an SDK that refuses only a missing
  \<^verbatim>\<open>apiKey\<close> or \<^verbatim>\<open>projectId\<close>, the module yields the client, configured without
  an app id.
\<close>

theorem firebase_module_unchecked_counterexample:
  "env_without_appId ''NEXT_PUBLIC_FIREBASE_APP_ID'' = None
   \<and> firebase_module checking_sdk env_without_appId =
       Inr \<lparr>firebaseApp =
              FirebaseApp \<lparr>apiKey = Some ''key'', authDomain = Some ''chat.example.com'',
                projectId = Some ''chat'', storageBucket = Some ''chat.bucket'',
                messagingSenderId = Some ''42'', appId = None, measurementId = Some ''G-1''\<rparr>,
            auth =
              Auth (FirebaseApp \<lparr>apiKey = Some ''key'', authDomain = Some ''chat.example.com'',
                projectId = Some ''chat'', storageBucket = Some ''chat.bucket'',
                messagingSenderId = Some ''42'', appId = None, measurementId = Some ''G-1''\<rparr>),
            googleProvider = \<lparr>customParameters = [(''prompt'', ''select_account'')]\<rparr>,
            db =
              Firestore (FirebaseApp \<lparr>apiKey = Some ''key'', authDomain = Some ''chat.example.com'',
                projectId = Some ''chat'', storageBucket = Some ''chat.bucket'',
                messagingSenderId = Some ''42'', appId = None, measurementId = Some ''G-1''\<rparr>)\<rparr>"
  by (simp add: firebase_module_def firebaseConfig_def checking_sdk_def env_without_appId_def)

text \<open>
  Claim C8, amended. Client initialisation does not check the connection parameters.
  Each of the seven fields of the configuration is its environment variable as it is,
  absent staying undefined. The app is the result of \<^verbatim>\<open>getApp\<close> when an app exists
  already and of \<^verbatim>\<open>initializeApp\<close> on that configuration otherwise. Initialisation
  fails exactly when that call, then \<^verbatim>\<open>getAuth\<close> on the app, then \<^verbatim>\<open>getFirestore\<close> on
  the app throws, with the error of the first call that throws; when all three
  succeed it yields the client made of their results, whatever the configuration
  holds.
\<close>

theorem firebase_module_result:
  fixes s :: sdk and env :: "string \<rightharpoonup> string"
  defines "created \<equiv> (if length (getApps s) \<noteq> 0 then getApp s
                       else initializeApp s (firebaseConfig env))"
  shows
  "firebaseConfig env =
     \<lparr>apiKey = env ''NEXT_PUBLIC_FIREBASE_API_KEY'',
      authDomain = env ''NEXT_PUBLIC_FIREBASE_AUTH_DOMAIN'',
      projectId = env ''NEXT_PUBLIC_FIREBASE_PROJECT_ID'',
      storageBucket = env ''NEXT_PUBLIC_FIREBASE_STORAGE_BUCKET'',
      messagingSenderId = env ''NEXT_PUBLIC_FIREBASE_MESSAGING_SENDER_ID'',
      appId = env ''NEXT_PUBLIC_FIREBASE_APP_ID'',
      measurementId = env ''NEXT_PUBLIC_FIREBASE_VAPID_KEY''\<rparr>
   \<and> (created = Inl e \<longrightarrow> firebase_module s env = Inl e)
   \<and> (created = Inr app \<and> getAuth s app = Inl e \<longrightarrow> firebase_module s env = Inl e)
   \<and> (created = Inr app \<and> getAuth s app = Inr a \<and> getFirestore s app = Inl e \<longrightarrow>
        firebase_module s env = Inl e)
   \<and> (created = Inr app \<and> getAuth s app = Inr a \<and> getFirestore s app = Inr d \<longrightarrow>
        firebase_module s env =
          Inr \<lparr>firebaseApp = app, auth = a,
               googleProvider = \<lparr>customParameters = [(''prompt'', ''select_account'')]\<rparr>,
               db = d\<rparr>)
   \<and> (firebase_module s env = Inl e \<longrightarrow>
        created = Inl e
        \<or> (\<exists>app. created = Inr app
              \<and> (getAuth s app = Inl e
                   \<or> (\<exists>a. getAuth s app = Inr a \<and> getFirestore s app = Inl e))))"
  unfolding created_def
  by (auto simp: firebase_module_def firebaseConfig_def split: sum.splits if_splits)

theorem firebase_module_result_witness:
  "firebase_module refusing_sdk env_without_appId = Inl (Error ''app/invalid-options'')
   \<and> initializeApp refusing_sdk (firebaseConfig env_without_appId) =
        Inl (Error ''app/invalid-options'')
   \<and> firebase_module checking_sdk Map.empty = Inl (Error ''auth/invalid-api-key'')
   \<and> getAuth checking_sdk (FirebaseApp (firebaseConfig Map.empty)) =
        Inl (Error ''auth/invalid-api-key'')
   \<and> firebase_module checking_sdk env_without_projectId = Inl (Error ''projectId not provided'')
   \<and> getFirestore checking_sdk (FirebaseApp (firebaseConfig env_without_projectId)) =
        Inl (Error ''projectId not provided'')
   \<and> firebase_module checking_sdk env_without_appId =
        Inr \<lparr>firebaseApp = FirebaseApp (firebaseConfig env_without_appId),
             auth = Auth (FirebaseApp (firebaseConfig env_without_appId)),
             googleProvider = \<lparr>customParameters = [(''prompt'', ''select_account'')]\<rparr>,
             db = Firestore (FirebaseApp (firebaseConfig env_without_appId))\<rparr>
   \<and> appId (firebaseConfig env_without_appId) = None
   \<and> firebase_module running_sdk Map.empty =
        Inr \<lparr>firebaseApp = running_app,
             auth = Auth running_app,
             googleProvider = \<lparr>customParameters = [(''prompt'', ''select_account'')]\<rparr>,
             db = Firestore running_app\<rparr>"
  using
    firebase_module_result [where s = refusing_sdk and env = env_without_appId
      and e = "Error ''app/invalid-options''"]
    firebase_module_result [where s = checking_sdk and env = Map.empty
      and app = "FirebaseApp (firebaseConfig Map.empty)"
      and e = "Error ''auth/invalid-api-key''"]
    firebase_module_result [where s = checking_sdk and env = env_without_projectId
      and app = "FirebaseApp (firebaseConfig env_without_projectId)"
      and a = "Auth (FirebaseApp (firebaseConfig env_without_projectId))"
      and e = "Error ''projectId not provided''"]
    firebase_module_result [where s = checking_sdk and env = env_without_appId
      and app = "FirebaseApp (firebaseConfig env_without_appId)"
      and a = "Auth (FirebaseApp (firebaseConfig env_without_appId))"
      and d = "Firestore (FirebaseApp (firebaseConfig env_without_appId))"]
    firebase_module_result [where s = running_sdk and env = Map.empty
      and app = running_app and a = "Auth running_app" and d = "Firestore running_app"]
  by (simp add: firebase_module_def firebaseConfig_def checking_sdk_def refusing_sdk_def
      running_sdk_def running_app_def env_without_appId_def env_without_projectId_def)

end
